theory Spec2Isabelle
  imports Complex_Main
begin

section \<open>Infinite-canvas note board: viewport, gestures and note collection\<close>

text \<open>
  The program is a React application (\<^verbatim>\<open>App.tsx\<close>, \<^verbatim>\<open>components/Canvas.tsx\<close>,
  \<^verbatim>\<open>components/Note.tsx\<close>, \<^verbatim>\<open>types/note.ts\<close>). Its state lives in \<^verbatim>\<open>useState\<close> cells and
  \<^verbatim>\<open>useRef\<close> cells; every handler is modelled as a function from the old state to the new
  one. A value that a handler reads from its closure (the state of the render in which the
  handler was created) is an explicit first argument, named as in the source (with the
  prefix \<open>c_\<close> where the name is also that of a state cell); a value it reads through a
  functional update \<^verbatim>\<open>setX(prev => ...)\<close> is the argument \<open>prev\<close>.

  JavaScript numbers are modelled as exact reals: every equality below is an equality of
  exact arithmetic.
\<close>

subsection \<open>Data model (\<^verbatim>\<open>types/note.ts\<close>)\<close>

text \<open>
  \<^verbatim>\<open>interface Note { id; x; y; content; width; height; color; createdAt }\<close>.
  The fields carry the prefix \<open>note_\<close>, since \<open>id\<close>, \<open>x\<close> and \<open>y\<close> are taken in HOL.
\<close>

record Note =
  note_id :: string
  note_x :: real
  note_y :: real
  note_content :: string
  note_width :: real
  note_height :: real
  note_color :: string
  note_createdAt :: nat

text \<open>\<^verbatim>\<open>interface CanvasState { scale; offsetX; offsetY }\<close>\<close>

record CanvasState =
  scale :: real
  offsetX :: real
  offsetY :: real

text \<open>
  \<^verbatim>\<open>Partial<Note>\<close>: every key of \<^verbatim>\<open>Note\<close> may be present (\<open>Some\<close>) or absent (\<open>None\<close>).
\<close>

record NoteUpdates =
  upd_id :: "string option"
  upd_x :: "real option"
  upd_y :: "real option"
  upd_content :: "string option"
  upd_width :: "real option"
  upd_height :: "real option"
  upd_color :: "string option"
  upd_createdAt :: "nat option"

definition no_updates :: NoteUpdates where
  "no_updates = \<lparr>upd_id = None, upd_x = None, upd_y = None, upd_content = None,
     upd_width = None, upd_height = None, upd_color = None, upd_createdAt = None\<rparr>"

text \<open>The object spread \<^verbatim>\<open>{ ...note, ...updates }\<close>: a key present in \<open>updates\<close> wins.\<close>

definition spread :: "Note \<Rightarrow> NoteUpdates \<Rightarrow> Note" where
  "spread note updates =
     \<lparr>note_id = (case upd_id updates of None \<Rightarrow> note_id note | Some v \<Rightarrow> v),
      note_x = (case upd_x updates of None \<Rightarrow> note_x note | Some v \<Rightarrow> v),
      note_y = (case upd_y updates of None \<Rightarrow> note_y note | Some v \<Rightarrow> v),
      note_content = (case upd_content updates of None \<Rightarrow> note_content note | Some v \<Rightarrow> v),
      note_width = (case upd_width updates of None \<Rightarrow> note_width note | Some v \<Rightarrow> v),
      note_height = (case upd_height updates of None \<Rightarrow> note_height note | Some v \<Rightarrow> v),
      note_color = (case upd_color updates of None \<Rightarrow> note_color note | Some v \<Rightarrow> v),
      note_createdAt =
        (case upd_createdAt updates of None \<Rightarrow> note_createdAt note | Some v \<Rightarrow> v)\<rparr>"

text \<open>A pair \<^verbatim>\<open>{ x, y }\<close> as held by the \<^verbatim>\<open>useRef\<close> cells of the gestures.\<close>

record Point =
  px :: real
  py :: real

text \<open>The part of \<^verbatim>\<open>getBoundingClientRect()\<close> the handlers read.\<close>

record Rect =
  rect_left :: real
  rect_top :: real
  rect_width :: real
  rect_height :: real

text \<open>
  The part of a mouse event the handlers read. \<open>target_is_canvas\<close> is
  \<^verbatim>\<open>e.target === canvasRef.current\<close>; the three \<open>in_\<close> flags are the results of
  \<^verbatim>\<open>closest('.note-toolbar')\<close>, \<^verbatim>\<open>closest('.note-delete')\<close> and \<^verbatim>\<open>closest('.ProseMirror')\<close>.
\<close>

record MouseEvent =
  button :: nat
  clientX :: real
  clientY :: real
  target_is_canvas :: bool
  in_toolbar :: bool
  in_delete :: bool
  in_editor :: bool

record WheelEvent =
  ctrlKey :: bool
  metaKey :: bool
  deltaY :: real
  wheel_clientX :: real
  wheel_clientY :: real

subsection \<open>Viewport (\<^verbatim>\<open>Canvas.tsx\<close>)\<close>

definition MIN_SCALE :: real where "MIN_SCALE = 0.25"
definition MAX_SCALE :: real where "MAX_SCALE = 3"
definition ZOOM_STEP :: real where "ZOOM_STEP = 0.1"

text \<open>The initial value of the \<^verbatim>\<open>canvasState\<close> cell.\<close>

definition initialCanvasState :: CanvasState where
  "initialCanvasState = \<lparr>scale = 1, offsetX = 0, offsetY = 0\<rparr>"

text \<open>
  Screen to world, as \<^verbatim>\<open>handleDoubleClick\<close> and \<^verbatim>\<open>handleAddNote\<close> compute it inline:
  \<^verbatim>\<open>(p - canvasState.offset) / canvasState.scale\<close>, for a point \<open>p\<close> relative to the canvas
  element.
\<close>

definition toWorld :: "CanvasState \<Rightarrow> Point \<Rightarrow> Point" where
  "toWorld v p = \<lparr>px = (px p - offsetX v) / scale v, py = (py p - offsetY v) / scale v\<rparr>"

text \<open>
  World to screen, as the transform container renders it:
  \<^verbatim>\<open>translate(offsetX px, offsetY px) scale(scale)\<close> with origin top-left.
\<close>

definition toScreen :: "CanvasState \<Rightarrow> Point \<Rightarrow> Point" where
  "toScreen v w = \<lparr>px = px w * scale v + offsetX v, py = py w * scale v + offsetY v\<rparr>"

text \<open>
  \<^verbatim>\<open>handleWheel\<close>. \<open>canvasState\<close> is the closure's state (the dependency
  \<^verbatim>\<open>canvasState.scale\<close>), \<open>rect\<close> the result of
  \<^verbatim>\<open>canvasRef.current?.getBoundingClientRect()\<close>, \<open>prev\<close> the argument of the functional update.
\<close>

definition handleWheel ::
  "CanvasState \<Rightarrow> Rect option \<Rightarrow> WheelEvent \<Rightarrow> CanvasState \<Rightarrow> CanvasState" where
  "handleWheel canvasState rect e prev =
     (if ctrlKey e \<or> metaKey e then
        (let delta = (if deltaY e > 0 then - ZOOM_STEP else ZOOM_STEP);
             newScale = max MIN_SCALE (min MAX_SCALE (scale canvasState + delta))
         in case rect of
              None \<Rightarrow> prev
            | Some r \<Rightarrow>
                (let mouseX = wheel_clientX e - rect_left r;
                     mouseY = wheel_clientY e - rect_top r;
                     scaleRatio = newScale / scale canvasState
                 in \<lparr>scale = newScale,
                     offsetX = mouseX - (mouseX - offsetX prev) * scaleRatio,
                     offsetY = mouseY - (mouseY - offsetY prev) * scaleRatio\<rparr>))
      else prev)"

definition zoomIn :: "CanvasState \<Rightarrow> CanvasState" where
  "zoomIn prev = prev\<lparr>scale := min MAX_SCALE (scale prev + ZOOM_STEP)\<rparr>"

definition zoomOut :: "CanvasState \<Rightarrow> CanvasState" where
  "zoomOut prev = prev\<lparr>scale := max MIN_SCALE (scale prev - ZOOM_STEP)\<rparr>"

text \<open>
  \<^verbatim>\<open>resetZoom\<close> and \<^verbatim>\<open>centerCanvas\<close>, which only the variant of the canvas with the light
  palette has.
\<close>

definition resetZoom :: "CanvasState \<Rightarrow> CanvasState" where
  "resetZoom prev = prev\<lparr>scale := 1\<rparr>"

definition centerCanvas :: "CanvasState \<Rightarrow> CanvasState" where
  "centerCanvas prev = \<lparr>scale = 1, offsetX = 0, offsetY = 0\<rparr>"

text \<open>
  An operation of the user interface that writes the scale, and a run of them from left to
  right.
\<close>

datatype ZoomOp =
  Wheel CanvasState "Rect option" WheelEvent
  | ZoomInButton
  | ZoomOutButton
  | ResetZoomButton
  | CenterCanvasButton

fun applyZoom :: "ZoomOp \<Rightarrow> CanvasState \<Rightarrow> CanvasState" where
  "applyZoom (Wheel canvasState rect e) prev = handleWheel canvasState rect e prev"
| "applyZoom ZoomInButton prev = zoomIn prev"
| "applyZoom ZoomOutButton prev = zoomOut prev"
| "applyZoom ResetZoomButton prev = resetZoom prev"
| "applyZoom CenterCanvasButton prev = centerCanvas prev"

definition runZoom :: "ZoomOp list \<Rightarrow> CanvasState \<Rightarrow> CanvasState" where
  "runZoom ops v = foldl (\<lambda>s op. applyZoom op s) v ops"


subsection \<open>Pan gesture (\<^verbatim>\<open>Canvas.tsx\<close>)\<close>

text \<open>The cells \<^verbatim>\<open>isPanning\<close>, \<^verbatim>\<open>panStartRef\<close> and \<^verbatim>\<open>canvasStartRef\<close> of the canvas.\<close>

record PanSession =
  isPanning :: bool
  panStartRef :: Point
  canvasStartRef :: Point

definition initialPanSession :: PanSession where
  "initialPanSession =
     \<lparr>isPanning = False, panStartRef = \<lparr>px = 0, py = 0\<rparr>, canvasStartRef = \<lparr>px = 0, py = 0\<rparr>\<rparr>"

subsection \<open>Note collection (\<^verbatim>\<open>App.tsx\<close>)\<close>

text \<open>
  The cells \<^verbatim>\<open>notes\<close>, \<^verbatim>\<open>selectedNoteId\<close> and \<^verbatim>\<open>nextColorIndex\<close> of \<^verbatim>\<open>App\<close>; the first is
  the field \<open>noteList\<close>, \<open>notes\<close> being a keyword of Isabelle.
\<close>

record AppState =
  noteList :: "Note list"
  selectedNoteId :: "string option"
  nextColorIndex :: nat

definition initialAppState :: AppState where
  "initialAppState = \<lparr>noteList = [], selectedNoteId = None, nextColorIndex = 0\<rparr>"

definition App_NOTE_COLORS :: "string list" where
  "App_NOTE_COLORS = [''yellow'', ''blue'', ''green'', ''pink'', ''purple'', ''orange'']"

definition Canvas_NOTE_COLORS :: "string list" where
  "Canvas_NOTE_COLORS = [''navy'', ''teal'', ''navy'', ''teal'', ''navy'', ''teal'']"

text \<open>The decimal digits of a natural number, as a template literal prints \<^verbatim>\<open>Date.now()\<close>.\<close>

fun decimal :: "nat \<Rightarrow> string" where
  "decimal n =
     (if n < 10 then [''0123456789'' ! n]
      else decimal (n div 10) @ [''0123456789'' ! (n mod 10)])"

declare decimal.simps [simp del]

text \<open>
  \<^verbatim>\<open>generateId\<close>: \<open>now\<close> is the value of \<^verbatim>\<open>Date.now()\<close> and \<open>rnd\<close> the string
  \<^verbatim>\<open>Math.random().toString(36).substr(2, 9)\<close>, both read from the environment.
\<close>

definition generateId :: "nat \<Rightarrow> string \<Rightarrow> string" where
  "generateId now rnd = ''note-'' @ decimal now @ ''-'' @ rnd"


text \<open>
  \<^verbatim>\<open>handleAddNote\<close> of \<^verbatim>\<open>App\<close>. \<open>c_nextColorIndex\<close> is the closure's \<^verbatim>\<open>nextColorIndex\<close>;
  \<open>idNow\<close> and \<open>rnd\<close> feed \<^verbatim>\<open>generateId()\<close>, \<open>createdNow\<close> is the second \<^verbatim>\<open>Date.now()\<close>.
  \<^verbatim>\<open>noteColor || ...\<close> falls back to the palette for an absent and for an empty string.
\<close>

definition App_handleAddNote ::
  "nat \<Rightarrow> nat \<Rightarrow> string \<Rightarrow> nat \<Rightarrow> real \<Rightarrow> real \<Rightarrow> string option \<Rightarrow> AppState \<Rightarrow> AppState" where
  "App_handleAddNote c_nextColorIndex idNow rnd createdNow x y noteColor st =
     (let palette = App_NOTE_COLORS ! (c_nextColorIndex mod length App_NOTE_COLORS);
          color = (case noteColor of
                     None \<Rightarrow> palette
                   | Some c \<Rightarrow> if c = [] then palette else c);
          newNote = \<lparr>note_id = generateId idNow rnd,
                     note_x = x,
                     note_y = y,
                     note_content = [],
                     note_width = 300,
                     note_height = 200,
                     note_color = color,
                     note_createdAt = createdNow\<rparr>
      in st\<lparr>nextColorIndex := nextColorIndex st + 1,
            noteList := noteList st @ [newNote],
            selectedNoteId := Some (note_id newNote)\<rparr>)"

text \<open>\<^verbatim>\<open>handleUpdateNote\<close>: the functional update of the \<^verbatim>\<open>notes\<close> cell.\<close>

definition handleUpdateNote :: "string \<Rightarrow> NoteUpdates \<Rightarrow> Note list \<Rightarrow> Note list" where
  "handleUpdateNote nid updates prev =
     map (\<lambda>note. if note_id note = nid then spread note updates else note) prev"

definition App_handleUpdateNote :: "string \<Rightarrow> NoteUpdates \<Rightarrow> AppState \<Rightarrow> AppState" where
  "App_handleUpdateNote nid updates st = st\<lparr>noteList := handleUpdateNote nid updates (noteList st)\<rparr>"

text \<open>\<^verbatim>\<open>handleDeleteNote\<close>. \<open>c_selectedNoteId\<close> is the closure's \<^verbatim>\<open>selectedNoteId\<close>.\<close>

definition handleDeleteNote :: "string option \<Rightarrow> string \<Rightarrow> AppState \<Rightarrow> AppState" where
  "handleDeleteNote c_selectedNoteId nid st =
     st\<lparr>noteList := filter (\<lambda>note. note_id note \<noteq> nid) (noteList st),
        selectedNoteId := (if c_selectedNoteId = Some nid then None else selectedNoteId st)\<rparr>"

definition handleSelectNote :: "string option \<Rightarrow> AppState \<Rightarrow> AppState" where
  "handleSelectNote nid st = st\<lparr>selectedNoteId := nid\<rparr>"

text \<open>
  \<^verbatim>\<open>handleKeyDown\<close>. \<open>target_is_editable\<close> is the test that the target is an input, a text
  area or content-editable; a selected id is truthy when it is present and not empty. The
  \<^verbatim>\<open>return\<close> for an editable target leaves the handler before the test for Escape.
\<close>

record KeyboardEvent =
  key :: string
  target_is_editable :: bool

definition handleKeyDown :: "string option \<Rightarrow> KeyboardEvent \<Rightarrow> AppState \<Rightarrow> AppState" where
  "handleKeyDown c_selectedNoteId e st =
     (case (case c_selectedNoteId of
              None \<Rightarrow> Inr st
            | Some sel \<Rightarrow>
                if (key e = ''Delete'' \<or> key e = ''Backspace'') \<and> sel \<noteq> [] then
                  (if target_is_editable e then Inl st
                   else Inr (handleDeleteNote c_selectedNoteId sel st))
                else Inr st) of
        Inl returned \<Rightarrow> returned
      | Inr st1 \<Rightarrow> if key e = ''Escape'' then handleSelectNote None st1 else st1)"

subsection \<open>Canvas handlers that reach the collection (\<^verbatim>\<open>Canvas.tsx\<close>)\<close>

text \<open>
  \<^verbatim>\<open>handleCanvasMouseDown\<close>. \<open>canvasState\<close> is the closure's state; the handler writes the pan
  cells and calls \<^verbatim>\<open>onSelectNote(null)\<close>.
\<close>

definition handleCanvasMouseDown ::
  "CanvasState \<Rightarrow> MouseEvent \<Rightarrow> PanSession \<times> AppState \<Rightarrow> PanSession \<times> AppState" where
  "handleCanvasMouseDown canvasState e s =
     (if button e = 1 \<or> (button e = 0 \<and> target_is_canvas e) then
        ((fst s)\<lparr>isPanning := True,
                panStartRef := \<lparr>px = clientX e, py = clientY e\<rparr>,
                canvasStartRef := \<lparr>px = offsetX canvasState, py = offsetY canvasState\<rparr>\<rparr>,
         handleSelectNote None (snd s))
      else s)"

text \<open>The \<^verbatim>\<open>mousemove\<close> and \<^verbatim>\<open>mouseup\<close> listeners of the pan effect.\<close>

definition Canvas_handleMouseMove :: "PanSession \<Rightarrow> MouseEvent \<Rightarrow> CanvasState \<Rightarrow> CanvasState" where
  "Canvas_handleMouseMove ps e prev =
     (if \<not> isPanning ps then prev
      else
        (let deltaX = clientX e - px (panStartRef ps);
             deltaY = clientY e - py (panStartRef ps)
         in prev\<lparr>offsetX := px (canvasStartRef ps) + deltaX,
                 offsetY := py (canvasStartRef ps) + deltaY\<rparr>))"

definition Canvas_handleMouseUp :: "PanSession \<Rightarrow> PanSession" where
  "Canvas_handleMouseUp ps = ps\<lparr>isPanning := False\<rparr>"

text \<open>
  \<^verbatim>\<open>handleDoubleClick\<close>: the arguments of the call \<^verbatim>\<open>onAddNote(x - 150, y - 50, color)\<close>, or
  \<open>None\<close> when the target is not the canvas element.
\<close>

definition handleDoubleClick ::
  "CanvasState \<Rightarrow> nat \<Rightarrow> Rect \<Rightarrow> MouseEvent \<Rightarrow> (real \<times> real \<times> string) option" where
  "handleDoubleClick canvasState c_nextColorIndex rect e =
     (if target_is_canvas e then
        (let x = (clientX e - rect_left rect - offsetX canvasState) / scale canvasState;
             y = (clientY e - rect_top rect - offsetY canvasState) / scale canvasState;
             color = Canvas_NOTE_COLORS ! (c_nextColorIndex mod length Canvas_NOTE_COLORS)
         in Some (x - 150, y - 50, color))
      else None)"

subsection \<open>Note gestures (\<^verbatim>\<open>Note.tsx\<close>)\<close>

text \<open>The cells \<^verbatim>\<open>isDragging\<close>, \<^verbatim>\<open>dragStartRef\<close> and \<^verbatim>\<open>noteStartRef\<close> of a note.\<close>

record DragSession =
  isDragging :: bool
  dragStartRef :: Point
  noteStartRef :: Point

definition initialDragSession :: DragSession where
  "initialDragSession =
     \<lparr>isDragging = False, dragStartRef = \<lparr>px = 0, py = 0\<rparr>, noteStartRef = \<lparr>px = 0, py = 0\<rparr>\<rparr>"

text \<open>
  \<^verbatim>\<open>handleMouseDown\<close> of a note: \<open>note\<close> is the closure's note; the handler calls
  \<^verbatim>\<open>onSelect(note.id)\<close> and writes the drag cells.
\<close>

definition Note_handleMouseDown ::
  "Note \<Rightarrow> MouseEvent \<Rightarrow> DragSession \<times> AppState \<Rightarrow> DragSession \<times> AppState" where
  "Note_handleMouseDown note e s =
     (if in_toolbar e \<or> in_delete e \<or> in_editor e then s
      else
        ((fst s)\<lparr>isDragging := True,
                dragStartRef := \<lparr>px = clientX e, py = clientY e\<rparr>,
                noteStartRef := \<lparr>px = note_x note, py = note_y note\<rparr>\<rparr>,
         handleSelectNote (Some (note_id note)) (snd s)))"

text \<open>
  The \<^verbatim>\<open>mousemove\<close> listener of the drag effect; \<^verbatim>\<open>onUpdate\<close> is \<^verbatim>\<open>handleUpdateNote\<close>.
\<close>

definition Note_handleMouseMove ::
  "DragSession \<Rightarrow> Note \<Rightarrow> real \<Rightarrow> MouseEvent \<Rightarrow> Note list \<Rightarrow> Note list" where
  "Note_handleMouseMove ds note canvasScale e prev =
     (if \<not> isDragging ds then prev
      else
        (let deltaX = (clientX e - px (dragStartRef ds)) / canvasScale;
             deltaY = (clientY e - py (dragStartRef ds)) / canvasScale
         in handleUpdateNote (note_id note)
              (no_updates\<lparr>upd_x := Some (px (noteStartRef ds) + deltaX),
                          upd_y := Some (py (noteStartRef ds) + deltaY)\<rparr>) prev))"

text \<open>
  The resize handle: \<^verbatim>\<open>onMouseDown\<close> captures \<^verbatim>\<open>startX\<close>, \<^verbatim>\<open>startY\<close>, \<^verbatim>\<open>startWidth\<close> and
  \<^verbatim>\<open>startHeight\<close>; \<^verbatim>\<open>handleResize\<close> is its \<^verbatim>\<open>mousemove\<close> listener.
\<close>

record ResizeSession =
  startX :: real
  startY :: real
  startWidth :: real
  startHeight :: real

definition resize_onMouseDown :: "Note \<Rightarrow> MouseEvent \<Rightarrow> ResizeSession" where
  "resize_onMouseDown note e =
     \<lparr>startX = clientX e, startY = clientY e,
      startWidth = note_width note, startHeight = note_height note\<rparr>"

definition handleResize ::
  "ResizeSession \<Rightarrow> Note \<Rightarrow> real \<Rightarrow> MouseEvent \<Rightarrow> Note list \<Rightarrow> Note list" where
  "handleResize rs note canvasScale e prev =
     (let deltaX = (clientX e - startX rs) / canvasScale;
          deltaY = (clientY e - startY rs) / canvasScale
      in handleUpdateNote (note_id note)
           (no_updates\<lparr>upd_width := Some (max 200 (startWidth rs + deltaX)),
                       upd_height := Some (max 100 (startHeight rs + deltaY))\<rparr>) prev)"

text \<open>The \<^verbatim>\<open>onUpdate\<close> callback of the embedded editor: \<^verbatim>\<open>onUpdate(note.id, { content })\<close>.\<close>

definition editor_onUpdate :: "Note \<Rightarrow> string \<Rightarrow> Note list \<Rightarrow> Note list" where
  "editor_onUpdate note html prev =
     handleUpdateNote (note_id note) (no_updates\<lparr>upd_content := Some html\<rparr>) prev"

subsection \<open>The mutations of the collection that the components issue\<close>

text \<open>
  Every call site of \<^verbatim>\<open>setNotes\<close>, with the arguments its handler takes: adding a note, deleting
  one, a drag move, a resize move and a content edit.
\<close>

datatype Mutation =
  AddNote nat nat string nat real real "string option"
  | DeleteNote "string option" string
  | DragMove DragSession Note real MouseEvent
  | ResizeMove ResizeSession Note real MouseEvent
  | EditContent Note string

fun applyMutation :: "Mutation \<Rightarrow> AppState \<Rightarrow> AppState" where
  "applyMutation (AddNote c_nextColorIndex idNow rnd createdNow x y noteColor) st =
     App_handleAddNote c_nextColorIndex idNow rnd createdNow x y noteColor st"
| "applyMutation (DeleteNote c_selectedNoteId nid) st = handleDeleteNote c_selectedNoteId nid st"
| "applyMutation (DragMove ds note canvasScale e) st =
     st\<lparr>noteList := Note_handleMouseMove ds note canvasScale e (noteList st)\<rparr>"
| "applyMutation (ResizeMove rs note canvasScale e) st =
     st\<lparr>noteList := handleResize rs note canvasScale e (noteList st)\<rparr>"
| "applyMutation (EditContent note html) st =
     st\<lparr>noteList := editor_onUpdate note html (noteList st)\<rparr>"

text \<open>The size bound of the data model.\<close>

definition size_ok :: "Note \<Rightarrow> bool" where
  "size_ok note \<longleftrightarrow> 200 \<le> note_width note \<and> 100 \<le> note_height note"

section \<open>Viewport properties\<close>

lemma runZoom_Nil: "runZoom [] v = v"
  by (simp add: runZoom_def)

lemma runZoom_snoc: "runZoom (ops @ [op]) v = applyZoom op (runZoom ops v)"
  by (simp add: runZoom_def)

lemma scale_in_range_applyZoom:
  assumes "MIN_SCALE \<le> scale v" and "scale v \<le> MAX_SCALE"
  shows "MIN_SCALE \<le> scale (applyZoom op v) \<and> scale (applyZoom op v) \<le> MAX_SCALE"
proof (cases op)
  case (Wheel canvasState rect e)
  then show ?thesis
    using assms
    by (auto simp: handleWheel_def Let_def MIN_SCALE_def MAX_SCALE_def max_def min_def
          split: option.split)
next
  case ZoomInButton
  then show ?thesis
    using assms by (simp add: zoomIn_def MIN_SCALE_def MAX_SCALE_def ZOOM_STEP_def)
next
  case ZoomOutButton
  then show ?thesis
    using assms by (simp add: zoomOut_def MIN_SCALE_def MAX_SCALE_def ZOOM_STEP_def)
next
  case ResetZoomButton
  then show ?thesis
    by (simp add: resetZoom_def MIN_SCALE_def MAX_SCALE_def)
next
  case CenterCanvasButton
  then show ?thesis
    by (simp add: centerCanvas_def MIN_SCALE_def MAX_SCALE_def)
qed

lemma scale_zoomIn_funpow:
  "scale ((zoomIn ^^ n) v) = (if n = 0 then scale v else min MAX_SCALE (scale v + real n * ZOOM_STEP))"
proof (induction n)
  case 0
  then show ?case by simp
next
  case (Suc n)
  then show ?case
    by (auto simp: zoomIn_def MAX_SCALE_def ZOOM_STEP_def min_def add_divide_distrib)
qed


lemma runZoom_replicate_zoomIn: "runZoom (replicate n ZoomInButton) v = (zoomIn ^^ n) v"
proof (induction n)
  case 0
  then show ?case by (simp add: runZoom_Nil)
next
  case (Suc n)
  have "replicate (Suc n) ZoomInButton = replicate n ZoomInButton @ [ZoomInButton]"
    by (simp add: replicate_append_same)
  then have "runZoom (replicate (Suc n) ZoomInButton) v
      = applyZoom ZoomInButton (runZoom (replicate n ZoomInButton) v)"
    by (simp only: runZoom_snoc)
  with Suc show ?case by simp
qed

lemma scale_in_range_runZoom:
  assumes "MIN_SCALE \<le> scale v" and "scale v \<le> MAX_SCALE"
  shows "MIN_SCALE \<le> scale (runZoom ops v) \<and> scale (runZoom ops v) \<le> MAX_SCALE"
proof (induction ops rule: rev_induct)
  case Nil
  then show ?case using assms by (simp add: runZoom_Nil)
next
  case (snoc op ops)
  then show ?case
    using scale_in_range_applyZoom [of "runZoom ops v" op] by (simp add: runZoom_snoc)
qed

lemma handleDoubleClick_toWorld:
  assumes "target_is_canvas e"
  shows "handleDoubleClick v k r e =
     (let w = toWorld v \<lparr>px = clientX e - rect_left r, py = clientY e - rect_top r\<rparr>
      in Some (px w - 150, py w - 50, Canvas_NOTE_COLORS ! (k mod length Canvas_NOTE_COLORS)))"
  using assms by (simp add: handleDoubleClick_def toWorld_def Let_def)

text \<open>
  C2. For a viewport whose scale lies in \<open>[0.25, 3]\<close>, the conversion from screen to world
  \<open>(p - offset) / scale\<close> and the conversion from world to screen \<open>w * scale + offset\<close>
  are inverses of one another in exact arithmetic: mapping a screen point to the world and
  back gives the point itself, and so does the other round trip.
\<close>

theorem toScreen_toWorld_inverse:
  assumes "MIN_SCALE \<le> scale v" and "scale v \<le> MAX_SCALE"
  shows "toScreen v (toWorld v p) = p \<and> toWorld v (toScreen v w) = w"
proof -
  have nz: "scale v \<noteq> 0"
    using assms(1) by (simp add: MIN_SCALE_def)
  have "toScreen v (toWorld v p) = p"
    using nz by (simp add: toScreen_def toWorld_def)
  moreover have "toWorld v (toScreen v w) = w"
    using nz by (simp add: toScreen_def toWorld_def)
  ultimately show ?thesis by simp
qed

theorem toScreen_toWorld_inverse_witness:
  "MIN_SCALE \<le> scale \<lparr>scale = 2, offsetX = 30, offsetY = -10\<rparr>
   \<and> scale \<lparr>scale = 2, offsetX = 30, offsetY = -10\<rparr> \<le> MAX_SCALE
   \<and> toWorld \<lparr>scale = 2, offsetX = 30, offsetY = -10\<rparr> \<lparr>px = 130, py = 40\<rparr> = \<lparr>px = 50, py = 25\<rparr>
   \<and> toScreen \<lparr>scale = 2, offsetX = 30, offsetY = -10\<rparr>
        (toWorld \<lparr>scale = 2, offsetX = 30, offsetY = -10\<rparr> \<lparr>px = 130, py = 40\<rparr>)
      = \<lparr>px = 130, py = 40\<rparr>"
  using toScreen_toWorld_inverse
    [of "\<lparr>scale = 2, offsetX = 30, offsetY = -10\<rparr>" "\<lparr>px = 130, py = 40\<rparr>"]
  by (simp add: MIN_SCALE_def MAX_SCALE_def toWorld_def)

text \<open>
  Wheel zoom in the render of the current viewport. For a viewport whose scale lies in \<open>[0.25, 3]\<close> and a wheel event with the control or
  meta key held, handled in the render of that viewport, \<open>handleWheel\<close> sets the scale to
  \<open>newScale = clamp (scale + f)\<close>, where the factor \<open>f\<close> is \<open>- 0.1\<close> for a positive
  \<open>deltaY\<close> and \<open>0.1\<close> otherwise, and the offset to
  \<open>a - (a - offset) * (newScale / scale)\<close>, where the anchor \<open>a\<close> is the pointer position
  relative to the canvas element. The world point under the anchor is the same before and
  after, also when the new scale is clamped.
\<close>

lemma handleWheel_anchor_current_render:
  assumes "MIN_SCALE \<le> scale v" and "scale v \<le> MAX_SCALE" and "ctrlKey e \<or> metaKey e"
  shows "let f = (if deltaY e > 0 then - ZOOM_STEP else ZOOM_STEP);
             a = \<lparr>px = wheel_clientX e - rect_left r, py = wheel_clientY e - rect_top r\<rparr>;
             newScale = max MIN_SCALE (min MAX_SCALE (scale v + f));
             v' = handleWheel v (Some r) e v
         in scale v' = newScale
            \<and> offsetX v' = px a - (px a - offsetX v) * (newScale / scale v)
            \<and> offsetY v' = py a - (py a - offsetY v) * (newScale / scale v)
            \<and> toWorld v' a = toWorld v a"
proof -
  define f where "f = (if deltaY e > 0 then - ZOOM_STEP else ZOOM_STEP)"
  define newScale where "newScale = max MIN_SCALE (min MAX_SCALE (scale v + f))"
  have pos: "0 < scale v"
    using assms(1) by (simp add: MIN_SCALE_def)
  have npos: "0 < newScale"
    by (simp add: newScale_def MIN_SCALE_def max_def)
  have eq: "handleWheel v (Some r) e v =
      \<lparr>scale = newScale,
       offsetX = (wheel_clientX e - rect_left r)
         - ((wheel_clientX e - rect_left r) - offsetX v) * (newScale / scale v),
       offsetY = (wheel_clientY e - rect_top r)
         - ((wheel_clientY e - rect_top r) - offsetY v) * (newScale / scale v)\<rparr>"
    using assms(3) by (simp add: handleWheel_def Let_def newScale_def f_def)
  have "toWorld (handleWheel v (Some r) e v)
          \<lparr>px = wheel_clientX e - rect_left r, py = wheel_clientY e - rect_top r\<rparr>
      = toWorld v \<lparr>px = wheel_clientX e - rect_left r, py = wheel_clientY e - rect_top r\<rparr>"
    using pos npos by (simp add: eq toWorld_def)
  then show ?thesis
    by (simp add: Let_def eq flip: newScale_def f_def)
qed

lemma handleWheel_anchor_current_render_example:
  "MIN_SCALE \<le> scale \<lparr>scale = 0.3, offsetX = 0, offsetY = 0\<rparr>
   \<and> scale \<lparr>scale = 0.3, offsetX = 0, offsetY = 0\<rparr> \<le> MAX_SCALE
   \<and> (ctrlKey \<lparr>ctrlKey = True, metaKey = False, deltaY = 120,
                 wheel_clientX = 70, wheel_clientY = 125\<rparr>
        \<or> metaKey \<lparr>ctrlKey = True, metaKey = False, deltaY = 120,
                    wheel_clientX = 70, wheel_clientY = 125\<rparr>)
   \<and> handleWheel \<lparr>scale = 0.3, offsetX = 0, offsetY = 0\<rparr>
        (Some \<lparr>rect_left = 10, rect_top = 5, rect_width = 800, rect_height = 600\<rparr>)
        \<lparr>ctrlKey = True, metaKey = False, deltaY = 120, wheel_clientX = 70, wheel_clientY = 125\<rparr>
        \<lparr>scale = 0.3, offsetX = 0, offsetY = 0\<rparr>
      = \<lparr>scale = 0.25, offsetX = 10, offsetY = 20\<rparr>
   \<and> toWorld \<lparr>scale = 0.3, offsetX = 0, offsetY = 0\<rparr> \<lparr>px = 60, py = 120\<rparr>
      = \<lparr>px = 200, py = 400\<rparr>
   \<and> toWorld \<lparr>scale = 0.25, offsetX = 10, offsetY = 20\<rparr> \<lparr>px = 60, py = 120\<rparr>
      = \<lparr>px = 200, py = 400\<rparr>"
  using handleWheel_anchor_current_render
    [of "\<lparr>scale = 0.3, offsetX = 0, offsetY = 0\<rparr>"
        "\<lparr>ctrlKey = True, metaKey = False, deltaY = 120, wheel_clientX = 70, wheel_clientY = 125\<rparr>"
        "\<lparr>rect_left = 10, rect_top = 5, rect_width = 800, rect_height = 600\<rparr>"]
  by (simp add: handleWheel_def toWorld_def Let_def MIN_SCALE_def MAX_SCALE_def ZOOM_STEP_def)

text \<open>
  C1. Wheel zoom is to set the scale to \<open>clamp (scale + f)\<close> and to keep the world point
  under the anchor where it is. \<open>handleWheel\<close> does so only when its closure is the current
  viewport: it reads the scale from the closure and the offset from \<open>prev\<close>, where \<open>zoomIn\<close>
  and \<open>zoomOut\<close> read the scale from \<open>prev\<close>. For a second wheel event handled before the
  next render both parts fail. With a closure of scale \<open>2\<close> and offset \<open>(0, 0)\<close> and two
  zoom-in wheel events at \<open>(100, 200)\<close>: the first gives scale \<open>2.1\<close> and offset
  \<open>(- 5, - 10)\<close>, with the anchor over the world point \<open>(50, 100)\<close> as before; the second
  gives scale \<open>2.1\<close> again, not \<open>clamp (2.1 + 0.1) = 2.2\<close>, and offset
  \<open>(- 10.25, - 20.5)\<close>, with the anchor over \<open>(52.5, 105)\<close>.
\<close>

theorem handleWheel_stale_closure:
  "handleWheel \<lparr>scale = 2, offsetX = 0, offsetY = 0\<rparr> (Some \<lparr>rect_left = 0, rect_top = 0, rect_width = 800, rect_height = 600\<rparr>)
        \<lparr>ctrlKey = True, metaKey = False, deltaY = - 100, wheel_clientX = 100, wheel_clientY = 200\<rparr>
        \<lparr>scale = 2, offsetX = 0, offsetY = 0\<rparr>
      = \<lparr>scale = 2.1, offsetX = - 5, offsetY = - 10\<rparr>
   \<and> toWorld \<lparr>scale = 2, offsetX = 0, offsetY = 0\<rparr> \<lparr>px = 100, py = 200\<rparr> = \<lparr>px = 50, py = 100\<rparr>
   \<and> toWorld \<lparr>scale = 2.1, offsetX = - 5, offsetY = - 10\<rparr> \<lparr>px = 100, py = 200\<rparr> = \<lparr>px = 50, py = 100\<rparr>
   \<and> handleWheel \<lparr>scale = 2, offsetX = 0, offsetY = 0\<rparr> (Some \<lparr>rect_left = 0, rect_top = 0, rect_width = 800, rect_height = 600\<rparr>)
        \<lparr>ctrlKey = True, metaKey = False, deltaY = - 100, wheel_clientX = 100, wheel_clientY = 200\<rparr>
        \<lparr>scale = 2.1, offsetX = - 5, offsetY = - 10\<rparr>
      = \<lparr>scale = 2.1, offsetX = - 10.25, offsetY = - 20.5\<rparr>
   \<and> max MIN_SCALE (min MAX_SCALE (scale \<lparr>scale = 2.1, offsetX = - 5, offsetY = - 10\<rparr> + ZOOM_STEP)) = 2.2
   \<and> scale \<lparr>scale = 2.1, offsetX = - 10.25, offsetY = - 20.5\<rparr> \<noteq> 2.2
   \<and> toWorld \<lparr>scale = 2.1, offsetX = - 10.25, offsetY = - 20.5\<rparr> \<lparr>px = 100, py = 200\<rparr> = \<lparr>px = 52.5, py = 105\<rparr>
   \<and> toWorld \<lparr>scale = 2.1, offsetX = - 10.25, offsetY = - 20.5\<rparr> \<lparr>px = 100, py = 200\<rparr> \<noteq> toWorld \<lparr>scale = 2.1, offsetX = - 5, offsetY = - 10\<rparr> \<lparr>px = 100, py = 200\<rparr>"
  by (simp add: handleWheel_def toWorld_def Let_def MIN_SCALE_def MAX_SCALE_def ZOOM_STEP_def)

text \<open>
  C3. From a viewport of scale \<open>1\<close>, after any finite run of zoom operations (a wheel zoom,
  whatever render it was created in, the zoom-in button, the zoom-out button, and also the
  reset and centre buttons of the variant that has them), the scale lies in \<open>[0.25, 3]\<close>; and one hundred presses of the zoom-in button from scale \<open>1\<close> give
  the scale \<open>3\<close> exactly.
\<close>

theorem scale_clamped_after_zooms:
  assumes "scale v = 1"
  shows "MIN_SCALE \<le> scale (runZoom ops v) \<and> scale (runZoom ops v) \<le> MAX_SCALE
         \<and> scale (runZoom (replicate 100 ZoomInButton) v) = 3"
proof -
  have "MIN_SCALE \<le> scale v" and "scale v \<le> MAX_SCALE"
    using assms by (simp_all add: MIN_SCALE_def MAX_SCALE_def)
  then have "MIN_SCALE \<le> scale (runZoom ops v) \<and> scale (runZoom ops v) \<le> MAX_SCALE"
    by (rule scale_in_range_runZoom)
  moreover have "scale (runZoom (replicate 100 ZoomInButton) v) = 3"
    using assms
    by (simp add: runZoom_replicate_zoomIn scale_zoomIn_funpow MAX_SCALE_def ZOOM_STEP_def)
  ultimately show ?thesis by simp
qed

theorem scale_clamped_after_zooms_witness:
  "scale initialCanvasState = 1
   \<and> scale (runZoom [ZoomInButton, ZoomOutButton, ZoomOutButton] initialCanvasState) = 0.9
   \<and> MIN_SCALE \<le> scale (runZoom [ZoomInButton, ZoomOutButton, ZoomOutButton] initialCanvasState)
   \<and> scale (runZoom [ZoomInButton, ZoomOutButton, ZoomOutButton] initialCanvasState) \<le> MAX_SCALE
   \<and> scale (runZoom (replicate 100 ZoomInButton) initialCanvasState) = 3"
  using scale_clamped_after_zooms
    [of initialCanvasState "[ZoomInButton, ZoomOutButton, ZoomOutButton]"]
  by (simp add: initialCanvasState_def runZoom_def zoomIn_def zoomOut_def
      MIN_SCALE_def MAX_SCALE_def ZOOM_STEP_def)

section \<open>Gesture properties\<close>

lemma spread_position:
  "spread n (no_updates\<lparr>upd_x := Some a, upd_y := Some b\<rparr>) = n\<lparr>note_x := a, note_y := b\<rparr>"
  by (simp add: spread_def no_updates_def)

lemma spread_size:
  "spread n (no_updates\<lparr>upd_width := Some a, upd_height := Some b\<rparr>)
     = n\<lparr>note_width := a, note_height := b\<rparr>"
  by (simp add: spread_def no_updates_def)

lemma spread_content:
  "spread n (no_updates\<lparr>upd_content := Some c\<rparr>) = n\<lparr>note_content := c\<rparr>"
  by (simp add: spread_def no_updates_def)

lemma Note_handleMouseMove_active:
  assumes "isDragging ds"
  shows "Note_handleMouseMove ds note s e prev =
     map (\<lambda>n. if note_id n = note_id note
               then n\<lparr>note_x := px (noteStartRef ds) + (clientX e - px (dragStartRef ds)) / s,
                      note_y := py (noteStartRef ds) + (clientY e - py (dragStartRef ds)) / s\<rparr>
               else n) prev"
  using assms
  by (simp add: Note_handleMouseMove_def handleUpdateNote_def Let_def spread_position)

text \<open>
  C4. In an active drag session at a viewport scale \<open>s\<close> in \<open>[0.25, 3]\<close>, a pointer move
  sets the position of the dragged note to the position captured at session start plus
  \<open>(dx / s, dy / s)\<close>, where \<open>(dx, dy)\<close> is the screen distance of the pointer from the
  session anchor; every other note is left as it is. The position is recomputed from the
  session start on each move: a move after an earlier move of the same session gives what
  the later move alone gives.
\<close>

theorem drag_move_position:
  assumes "isDragging ds" and "MIN_SCALE \<le> s" and "s \<le> MAX_SCALE"
  shows "Note_handleMouseMove ds note s e prev =
           map (\<lambda>n. if note_id n = note_id note
                     then n\<lparr>note_x := px (noteStartRef ds) + (clientX e - px (dragStartRef ds)) / s,
                            note_y := py (noteStartRef ds) + (clientY e - py (dragStartRef ds)) / s\<rparr>
                     else n) prev
         \<and> Note_handleMouseMove ds note s e (Note_handleMouseMove ds note s e1 prev)
             = Note_handleMouseMove ds note s e prev"
proof -
  have "Note_handleMouseMove ds note s e (Note_handleMouseMove ds note s e1 prev)
      = Note_handleMouseMove ds note s e prev"
    by (simp add: Note_handleMouseMove_active [OF assms(1)] comp_def cong: map_cong)
  then show ?thesis
    by (simp add: Note_handleMouseMove_active [OF assms(1)])
qed

theorem drag_move_position_witness:
  "isDragging (fst (Note_handleMouseDown
       \<lparr>note_id = ''a'', note_x = 100, note_y = 100, note_content = [], note_width = 300,
        note_height = 200, note_color = ''navy'', note_createdAt = 7\<rparr>
       \<lparr>button = 0, clientX = 500, clientY = 300, target_is_canvas = False,
        in_toolbar = False, in_delete = False, in_editor = False\<rparr>
       (initialDragSession, initialAppState)))
   \<and> MIN_SCALE \<le> 2 \<and> 2 \<le> MAX_SCALE
   \<and> Note_handleMouseMove
        (fst (Note_handleMouseDown
          \<lparr>note_id = ''a'', note_x = 100, note_y = 100, note_content = [], note_width = 300,
           note_height = 200, note_color = ''navy'', note_createdAt = 7\<rparr>
          \<lparr>button = 0, clientX = 500, clientY = 300, target_is_canvas = False,
           in_toolbar = False, in_delete = False, in_editor = False\<rparr>
          (initialDragSession, initialAppState)))
        \<lparr>note_id = ''a'', note_x = 100, note_y = 100, note_content = [], note_width = 300,
         note_height = 200, note_color = ''navy'', note_createdAt = 7\<rparr>
        2
        \<lparr>button = 0, clientX = 540, clientY = 320, target_is_canvas = False,
         in_toolbar = False, in_delete = False, in_editor = False\<rparr>
        [\<lparr>note_id = ''a'', note_x = 100, note_y = 100, note_content = [], note_width = 300,
          note_height = 200, note_color = ''navy'', note_createdAt = 7\<rparr>]
      = [\<lparr>note_id = ''a'', note_x = 120, note_y = 110, note_content = [], note_width = 300,
          note_height = 200, note_color = ''navy'', note_createdAt = 7\<rparr>]"
  using drag_move_position
    [of "fst (Note_handleMouseDown
          \<lparr>note_id = ''a'', note_x = 100, note_y = 100, note_content = [], note_width = 300,
           note_height = 200, note_color = ''navy'', note_createdAt = 7\<rparr>
          \<lparr>button = 0, clientX = 500, clientY = 300, target_is_canvas = False,
           in_toolbar = False, in_delete = False, in_editor = False\<rparr>
          (initialDragSession, initialAppState))"
        2
        "\<lparr>note_id = ''a'', note_x = 100, note_y = 100, note_content = [], note_width = 300,
          note_height = 200, note_color = ''navy'', note_createdAt = 7\<rparr>"
        "\<lparr>button = 0, clientX = 540, clientY = 320, target_is_canvas = False,
          in_toolbar = False, in_delete = False, in_editor = False\<rparr>"
        "[\<lparr>note_id = ''a'', note_x = 100, note_y = 100, note_content = [], note_width = 300,
          note_height = 200, note_color = ''navy'', note_createdAt = 7\<rparr>]"]
  by (simp add: Note_handleMouseDown_def initialDragSession_def MIN_SCALE_def MAX_SCALE_def)

lemma Canvas_handleMouseMove_active:
  assumes "isPanning ps"
  shows "Canvas_handleMouseMove ps e prev =
     prev\<lparr>offsetX := px (canvasStartRef ps) + (clientX e - px (panStartRef ps)),
           offsetY := py (canvasStartRef ps) + (clientY e - py (panStartRef ps))\<rparr>"
  using assms by (simp add: Canvas_handleMouseMove_def Let_def)

text \<open>
  C9. In an active pan session, a pointer move sets the viewport offset to the offset
  captured at session start plus the screen distance of the pointer from the session
  anchor, and leaves the scale as it is. The offset is recomputed from the captured values,
  not accumulated: the result does not depend on the offset before the move, so a move
  after an earlier move of the same session gives what the later move alone gives.
\<close>

theorem pan_move_offset:
  assumes "isPanning ps"
  shows "Canvas_handleMouseMove ps e prev =
           prev\<lparr>offsetX := px (canvasStartRef ps) + (clientX e - px (panStartRef ps)),
                 offsetY := py (canvasStartRef ps) + (clientY e - py (panStartRef ps))\<rparr>
         \<and> scale (Canvas_handleMouseMove ps e prev) = scale prev
         \<and> Canvas_handleMouseMove ps e (Canvas_handleMouseMove ps e1 prev)
             = Canvas_handleMouseMove ps e prev"
  by (simp add: Canvas_handleMouseMove_active [OF assms])

theorem pan_move_offset_witness:
  "isPanning (fst (handleCanvasMouseDown \<lparr>scale = 2, offsetX = 15, offsetY = 25\<rparr>
       \<lparr>button = 0, clientX = 400, clientY = 300, target_is_canvas = True,
        in_toolbar = False, in_delete = False, in_editor = False\<rparr>
       (initialPanSession, initialAppState)))
   \<and> Canvas_handleMouseMove
        (fst (handleCanvasMouseDown \<lparr>scale = 2, offsetX = 15, offsetY = 25\<rparr>
          \<lparr>button = 0, clientX = 400, clientY = 300, target_is_canvas = True,
           in_toolbar = False, in_delete = False, in_editor = False\<rparr>
          (initialPanSession, initialAppState)))
        \<lparr>button = 0, clientX = 500, clientY = 350, target_is_canvas = True,
         in_toolbar = False, in_delete = False, in_editor = False\<rparr>
        \<lparr>scale = 2, offsetX = 60, offsetY = 70\<rparr>
      = \<lparr>scale = 2, offsetX = 115, offsetY = 75\<rparr>"
  using pan_move_offset
    [of "fst (handleCanvasMouseDown \<lparr>scale = 2, offsetX = 15, offsetY = 25\<rparr>
          \<lparr>button = 0, clientX = 400, clientY = 300, target_is_canvas = True,
           in_toolbar = False, in_delete = False, in_editor = False\<rparr>
          (initialPanSession, initialAppState))"
        "\<lparr>button = 0, clientX = 500, clientY = 350, target_is_canvas = True,
          in_toolbar = False, in_delete = False, in_editor = False\<rparr>"
        "\<lparr>scale = 2, offsetX = 60, offsetY = 70\<rparr>"]
  by (simp add: handleCanvasMouseDown_def initialPanSession_def)

lemma handleCanvasMouseDown_starts:
  assumes "button e = 1 \<or> (button e = 0 \<and> target_is_canvas e)"
  shows "handleCanvasMouseDown canvasState e (ps, st) =
     (\<lparr>isPanning = True,
       panStartRef = \<lparr>px = clientX e, py = clientY e\<rparr>,
       canvasStartRef = \<lparr>px = offsetX canvasState, py = offsetY canvasState\<rparr>\<rparr>,
      st\<lparr>selectedNoteId := None\<rparr>)"
  using assms by (auto simp: handleCanvasMouseDown_def handleSelectNote_def)

lemma Note_handleMouseDown_starts:
  assumes "\<not> in_toolbar e" and "\<not> in_delete e" and "\<not> in_editor e"
  shows "Note_handleMouseDown note e (ds, st) =
     (\<lparr>isDragging = True,
       dragStartRef = \<lparr>px = clientX e, py = clientY e\<rparr>,
       noteStartRef = \<lparr>px = note_x note, py = note_y note\<rparr>\<rparr>,
      st\<lparr>selectedNoteId := Some (note_id note)\<rparr>)"
  using assms by (simp add: Note_handleMouseDown_def handleSelectNote_def)

section \<open>Note collection properties\<close>

lemma handleUpdateNote_unknown:
  assumes "nid \<notin> note_id ` set prev"
  shows "handleUpdateNote nid updates prev = prev"
  using assms by (induction prev) (auto simp: handleUpdateNote_def)

lemma filter_unknown:
  assumes "nid \<notin> note_id ` set prev"
  shows "filter (\<lambda>note. note_id note \<noteq> nid) prev = prev"
  using assms by (induction prev) auto

text \<open>
  C7. For every state of the collection and every id that no note of the collection has,
  an update with that id and any partial fields, and a removal with that id, leave the
  collection as it is: the same notes in the same order. Both are total functions, so
  neither fails.
\<close>

theorem unknown_id_is_noop:
  assumes "nid \<notin> note_id ` set (noteList st)"
  shows "handleUpdateNote nid updates (noteList st) = noteList st
         \<and> App_handleUpdateNote nid updates st = st
         \<and> noteList (handleDeleteNote c_selectedNoteId nid st) = noteList st"
  using assms
  by (simp add: handleUpdateNote_unknown filter_unknown App_handleUpdateNote_def
      handleDeleteNote_def)

theorem unknown_id_is_noop_witness:
  "''b'' \<notin> note_id ` set (noteList
       \<lparr>noteList = [\<lparr>note_id = ''a'', note_x = 0, note_y = 0, note_content = [],
                     note_width = 300, note_height = 200, note_color = ''navy'',
                     note_createdAt = 7\<rparr>],
        selectedNoteId = Some ''a'', nextColorIndex = 1\<rparr>)
   \<and> handleUpdateNote ''b'' (no_updates\<lparr>upd_x := Some 5\<rparr>)
        [\<lparr>note_id = ''a'', note_x = 0, note_y = 0, note_content = [],
          note_width = 300, note_height = 200, note_color = ''navy'', note_createdAt = 7\<rparr>]
      = [\<lparr>note_id = ''a'', note_x = 0, note_y = 0, note_content = [],
          note_width = 300, note_height = 200, note_color = ''navy'', note_createdAt = 7\<rparr>]
   \<and> noteList (handleDeleteNote (Some ''a'') ''b''
        \<lparr>noteList = [\<lparr>note_id = ''a'', note_x = 0, note_y = 0, note_content = [],
                      note_width = 300, note_height = 200, note_color = ''navy'',
                      note_createdAt = 7\<rparr>],
         selectedNoteId = Some ''a'', nextColorIndex = 1\<rparr>)
      = [\<lparr>note_id = ''a'', note_x = 0, note_y = 0, note_content = [],
          note_width = 300, note_height = 200, note_color = ''navy'', note_createdAt = 7\<rparr>]"
  using unknown_id_is_noop
    [of "''b''"
        "\<lparr>noteList = [\<lparr>note_id = ''a'', note_x = 0, note_y = 0, note_content = [],
                      note_width = 300, note_height = 200, note_color = ''navy'',
                      note_createdAt = 7\<rparr>],
          selectedNoteId = Some ''a'', nextColorIndex = 1\<rparr>"
        "no_updates\<lparr>upd_x := Some 5\<rparr>" "Some ''a''"]
  by simp

lemma handleKeyDown_delete:
  assumes "key e = ''Delete'' \<or> key e = ''Backspace''"
    and "selectedNoteId st = Some sel" and "sel \<noteq> []" and "\<not> target_is_editable e"
  shows "handleKeyDown (selectedNoteId st) e st = handleDeleteNote (Some sel) sel st"
  using assms by (auto simp: handleKeyDown_def)

text \<open>
  C8. For every state with a selected note, handled in the render of that state: deleting
  the selected note clears the selection in the same operation that removes the note, and
  deleting a note with any other id leaves the selection as it is.
\<close>

theorem delete_selection:
  assumes "selectedNoteId st = Some sel"
  shows "selectedNoteId (handleDeleteNote (selectedNoteId st) sel st) = None
         \<and> noteList (handleDeleteNote (selectedNoteId st) sel st)
             = filter (\<lambda>note. note_id note \<noteq> sel) (noteList st)
         \<and> (nid \<noteq> sel \<longrightarrow>
              selectedNoteId (handleDeleteNote (selectedNoteId st) nid st) = Some sel)"
  using assms by (simp add: handleDeleteNote_def)

theorem delete_selection_witness:
  "selectedNoteId
       \<lparr>noteList = [\<lparr>note_id = ''a'', note_x = 0, note_y = 0, note_content = [],
                     note_width = 300, note_height = 200, note_color = ''navy'',
                     note_createdAt = 7\<rparr>,
                    \<lparr>note_id = ''b'', note_x = 9, note_y = 9, note_content = [],
                     note_width = 300, note_height = 200, note_color = ''teal'',
                     note_createdAt = 8\<rparr>],
        selectedNoteId = Some ''a'', nextColorIndex = 2\<rparr> = Some ''a''
   \<and> ''b'' \<noteq> ''a''
   \<and> handleDeleteNote (Some ''a'') ''a''
       \<lparr>noteList = [\<lparr>note_id = ''a'', note_x = 0, note_y = 0, note_content = [],
                     note_width = 300, note_height = 200, note_color = ''navy'',
                     note_createdAt = 7\<rparr>,
                    \<lparr>note_id = ''b'', note_x = 9, note_y = 9, note_content = [],
                     note_width = 300, note_height = 200, note_color = ''teal'',
                     note_createdAt = 8\<rparr>],
        selectedNoteId = Some ''a'', nextColorIndex = 2\<rparr>
      = \<lparr>noteList = [\<lparr>note_id = ''b'', note_x = 9, note_y = 9, note_content = [],
                      note_width = 300, note_height = 200, note_color = ''teal'',
                      note_createdAt = 8\<rparr>],
         selectedNoteId = None, nextColorIndex = 2\<rparr>
   \<and> selectedNoteId (handleDeleteNote (Some ''a'') ''b''
       \<lparr>noteList = [\<lparr>note_id = ''a'', note_x = 0, note_y = 0, note_content = [],
                     note_width = 300, note_height = 200, note_color = ''navy'',
                     note_createdAt = 7\<rparr>,
                    \<lparr>note_id = ''b'', note_x = 9, note_y = 9, note_content = [],
                     note_width = 300, note_height = 200, note_color = ''teal'',
                     note_createdAt = 8\<rparr>],
        selectedNoteId = Some ''a'', nextColorIndex = 2\<rparr>) = Some ''a''"
  using delete_selection
    [of "\<lparr>noteList = [\<lparr>note_id = ''a'', note_x = 0, note_y = 0, note_content = [],
                     note_width = 300, note_height = 200, note_color = ''navy'',
                     note_createdAt = 7\<rparr>,
                    \<lparr>note_id = ''b'', note_x = 9, note_y = 9, note_content = [],
                     note_width = 300, note_height = 200, note_color = ''teal'',
                     note_createdAt = 8\<rparr>],
          selectedNoteId = Some ''a'', nextColorIndex = 2\<rparr>" "''a''" "''b''"]
  by (simp add: handleDeleteNote_def)













section \<open>Size and identity of notes under updates\<close>

lemma size_ok_handleUpdateNote:
  assumes "\<forall>n \<in> set prev. size_ok n"
    and "case upd_width updates of None \<Rightarrow> True | Some w \<Rightarrow> 200 \<le> w"
    and "case upd_height updates of None \<Rightarrow> True | Some h \<Rightarrow> 100 \<le> h"
  shows "\<forall>n \<in> set (handleUpdateNote nid updates prev). size_ok n"
  using assms
  by (auto simp: handleUpdateNote_def spread_def size_ok_def split: option.splits)

lemma size_ok_applyMutation:
  assumes "\<forall>n \<in> set (noteList st). size_ok n"
  shows "\<forall>n \<in> set (noteList (applyMutation m st)). size_ok n"
proof (cases m)
  case (AddNote k idNow rnd createdNow x y noteColor)
  then show ?thesis
    using assms by (auto simp: App_handleAddNote_def Let_def size_ok_def)
next
  case (DeleteNote c nid)
  then show ?thesis
    using assms by (simp add: handleDeleteNote_def)
next
  case (DragMove ds nt s e)
  have "\<forall>n \<in> set (Note_handleMouseMove ds nt s e (noteList st)). size_ok n"
  proof (cases "isDragging ds")
    case True
    have "\<forall>n \<in> set (handleUpdateNote (note_id nt)
              (no_updates\<lparr>upd_x := Some (px (noteStartRef ds) + (clientX e - px (dragStartRef ds)) / s),
                          upd_y := Some (py (noteStartRef ds) + (clientY e - py (dragStartRef ds)) / s)\<rparr>)
              (noteList st)). size_ok n"
      using assms by (intro size_ok_handleUpdateNote) (simp_all add: no_updates_def)
    with True show ?thesis
      by (simp add: Note_handleMouseMove_def Let_def)
  next
    case False
    with assms show ?thesis
      by (simp add: Note_handleMouseMove_def)
  qed
  with DragMove show ?thesis by simp
next
  case (ResizeMove rs nt s e)
  have "\<forall>n \<in> set (handleResize rs nt s e (noteList st)). size_ok n"
    unfolding handleResize_def Let_def
    using assms by (intro size_ok_handleUpdateNote) (simp_all add: no_updates_def)
  with ResizeMove show ?thesis by simp
next
  case (EditContent nt html)
  have "\<forall>n \<in> set (editor_onUpdate nt html (noteList st)). size_ok n"
    unfolding editor_onUpdate_def
    using assms by (intro size_ok_handleUpdateNote) (simp_all add: no_updates_def)
  with EditContent show ?thesis by simp
qed

lemma handleResize_eq:
  "handleResize rs note s e prev =
     map (\<lambda>n. if note_id n = note_id note
               then n\<lparr>note_width := max 200 (startWidth rs + (clientX e - startX rs) / s),
                      note_height := max 100 (startHeight rs + (clientY e - startY rs) / s)\<rparr>
               else n) prev"
  by (simp add: handleResize_def handleUpdateNote_def Let_def spread_size)

lemma handleUpdateNote_identity:
  assumes "upd_id updates = None" and "upd_createdAt updates = None"
  shows "map note_id (handleUpdateNote nid updates prev) = map note_id prev
         \<and> map note_createdAt (handleUpdateNote nid updates prev) = map note_createdAt prev"
  using assms by (induction prev) (simp_all add: handleUpdateNote_def spread_def)

text \<open>
  C5, as the claim states it, fails: \<open>handleUpdateNote\<close> merges the keys of the partial
  object as they are, so an update that carries a width of \<open>50\<close> and a height of \<open>40\<close>
  leaves a note below the bound.
\<close>

theorem update_size_counterexample:
  "size_ok \<lparr>note_id = ''a'', note_x = 0, note_y = 0, note_content = [],
          note_width = 300, note_height = 200, note_color = ''navy'',
          note_createdAt = 7\<rparr>
   \<and> handleUpdateNote ''a'' (no_updates\<lparr>upd_width := Some 50, upd_height := Some 40\<rparr>)
        [\<lparr>note_id = ''a'', note_x = 0, note_y = 0, note_content = [],
          note_width = 300, note_height = 200, note_color = ''navy'',
          note_createdAt = 7\<rparr>]
      = [\<lparr>note_id = ''a'', note_x = 0, note_y = 0, note_content = [],
          note_width = 50, note_height = 40, note_color = ''navy'',
          note_createdAt = 7\<rparr>]
   \<and> \<not> size_ok \<lparr>note_id = ''a'', note_x = 0, note_y = 0, note_content = [],
          note_width = 50, note_height = 40, note_color = ''navy'',
          note_createdAt = 7\<rparr>"
  by (simp add: handleUpdateNote_def spread_def no_updates_def size_ok_def)

text \<open>
  C5, amended. Every mutation of the collection that the components issue keeps the bound
  \<open>width \<ge> 200\<close> and \<open>height \<ge> 100\<close> for every note that had it: adding a note (created
  \<open>300\<close> by \<open>200\<close>), deleting one, a drag move, a content edit and a resize move. A resize
  move sets the width of the resized note to \<open>max 200 (startWidth + dx)\<close> and its height to
  \<open>max 100 (startHeight + dy)\<close>, with \<open>(dx, dy)\<close> the screen distance from the session anchor
  divided by the scale, and leaves every other note as it is.
\<close>

theorem size_bound_of_mutations:
  assumes "\<forall>n \<in> set (noteList st). size_ok n"
  shows "(\<forall>n \<in> set (noteList (applyMutation m st)). size_ok n)
         \<and> handleResize rs note s e (noteList st) =
             map (\<lambda>n. if note_id n = note_id note
                       then n\<lparr>note_width := max 200 (startWidth rs + (clientX e - startX rs) / s),
                              note_height := max 100 (startHeight rs + (clientY e - startY rs) / s)\<rparr>
                       else n) (noteList st)"
  using size_ok_applyMutation [OF assms, of m] handleResize_eq [of rs "note" s e "noteList st"]
  by simp

theorem size_bound_of_mutations_witness:
  "size_ok \<lparr>note_id = ''a'', note_x = 0, note_y = 0, note_content = [],
          note_width = 300, note_height = 200, note_color = ''navy'',
          note_createdAt = 7\<rparr>
   \<and> noteList (applyMutation
        (ResizeMove (resize_onMouseDown \<lparr>note_id = ''a'', note_x = 0, note_y = 0, note_content = [],
          note_width = 300, note_height = 200, note_color = ''navy'',
          note_createdAt = 7\<rparr>
          \<lparr>button = 0, clientX = 600, clientY = 600, target_is_canvas = False,
          in_toolbar = False, in_delete = False, in_editor = False\<rparr>)
           \<lparr>note_id = ''a'', note_x = 0, note_y = 0, note_content = [],
          note_width = 300, note_height = 200, note_color = ''navy'',
          note_createdAt = 7\<rparr> 2 \<lparr>button = 0, clientX = 100, clientY = 100, target_is_canvas = False,
          in_toolbar = False, in_delete = False, in_editor = False\<rparr>)
        \<lparr>noteList = [\<lparr>note_id = ''a'', note_x = 0, note_y = 0, note_content = [],
          note_width = 300, note_height = 200, note_color = ''navy'',
          note_createdAt = 7\<rparr>],
          selectedNoteId = Some ''a'', nextColorIndex = 1\<rparr>)
      = [\<lparr>note_id = ''a'', note_x = 0, note_y = 0, note_content = [],
          note_width = 200, note_height = 100, note_color = ''navy'',
          note_createdAt = 7\<rparr>]
   \<and> size_ok \<lparr>note_id = ''a'', note_x = 0, note_y = 0, note_content = [],
          note_width = 200, note_height = 100, note_color = ''navy'',
          note_createdAt = 7\<rparr>"
  using size_bound_of_mutations
    [of "\<lparr>noteList = [\<lparr>note_id = ''a'', note_x = 0, note_y = 0, note_content = [],
          note_width = 300, note_height = 200, note_color = ''navy'',
          note_createdAt = 7\<rparr>],
          selectedNoteId = Some ''a'', nextColorIndex = 1\<rparr>"
        "ResizeMove (resize_onMouseDown \<lparr>note_id = ''a'', note_x = 0, note_y = 0, note_content = [],
          note_width = 300, note_height = 200, note_color = ''navy'',
          note_createdAt = 7\<rparr>
          \<lparr>button = 0, clientX = 600, clientY = 600, target_is_canvas = False,
          in_toolbar = False, in_delete = False, in_editor = False\<rparr>)
           \<lparr>note_id = ''a'', note_x = 0, note_y = 0, note_content = [],
          note_width = 300, note_height = 200, note_color = ''navy'',
          note_createdAt = 7\<rparr> 2 \<lparr>button = 0, clientX = 100, clientY = 100, target_is_canvas = False,
          in_toolbar = False, in_delete = False, in_editor = False\<rparr>"
        "(resize_onMouseDown \<lparr>note_id = ''a'', note_x = 0, note_y = 0, note_content = [],
          note_width = 300, note_height = 200, note_color = ''navy'',
          note_createdAt = 7\<rparr>
          \<lparr>button = 0, clientX = 600, clientY = 600, target_is_canvas = False,
          in_toolbar = False, in_delete = False, in_editor = False\<rparr>)"
        "\<lparr>note_id = ''a'', note_x = 0, note_y = 0, note_content = [],
          note_width = 300, note_height = 200, note_color = ''navy'',
          note_createdAt = 7\<rparr>" 2
        "\<lparr>button = 0, clientX = 100, clientY = 100, target_is_canvas = False,
          in_toolbar = False, in_delete = False, in_editor = False\<rparr>"]
  by (simp add: size_ok_def resize_onMouseDown_def)

text \<open>
  C6, as the claim states it, fails: the spread \<^verbatim>\<open>{ ...note, ...updates }\<close> lets every key of
  the partial object win, the keys \<^verbatim>\<open>id\<close> and \<^verbatim>\<open>createdAt\<close> among them.
\<close>

theorem update_identity_counterexample:
  "handleUpdateNote ''a'' (no_updates\<lparr>upd_id := Some ''z'', upd_createdAt := Some 0\<rparr>)
        [\<lparr>note_id = ''a'', note_x = 0, note_y = 0, note_content = [],
          note_width = 300, note_height = 200, note_color = ''navy'',
          note_createdAt = 7\<rparr>]
      = [\<lparr>note_id = ''z'', note_x = 0, note_y = 0, note_content = [],
          note_width = 300, note_height = 200, note_color = ''navy'',
          note_createdAt = 0\<rparr>]
   \<and> note_id \<lparr>note_id = ''z'', note_x = 0, note_y = 0, note_content = [],
          note_width = 300, note_height = 200, note_color = ''navy'',
          note_createdAt = 0\<rparr> \<noteq> note_id \<lparr>note_id = ''a'', note_x = 0, note_y = 0, note_content = [],
          note_width = 300, note_height = 200, note_color = ''navy'',
          note_createdAt = 7\<rparr>
   \<and> note_createdAt \<lparr>note_id = ''z'', note_x = 0, note_y = 0, note_content = [],
          note_width = 300, note_height = 200, note_color = ''navy'',
          note_createdAt = 0\<rparr> \<noteq> note_createdAt \<lparr>note_id = ''a'', note_x = 0, note_y = 0, note_content = [],
          note_width = 300, note_height = 200, note_color = ''navy'',
          note_createdAt = 7\<rparr>"
  by (simp add: handleUpdateNote_def spread_def no_updates_def)

text \<open>
  C6, amended. For every collection and every update whose partial object has no \<open>id\<close> and
  no \<open>createdAt\<close> key, the id and the creation timestamp of every note are the same
  afterwards. The updates that the components issue are of this kind: a drag move, a resize
  move and a content edit leave all ids and creation timestamps as they are.
\<close>

theorem update_keeps_identity:
  assumes "upd_id updates = None" and "upd_createdAt updates = None"
  shows "map note_id (handleUpdateNote nid updates prev) = map note_id prev
         \<and> map note_createdAt (handleUpdateNote nid updates prev) = map note_createdAt prev
         \<and> map note_id (Note_handleMouseMove ds note s e prev) = map note_id prev
         \<and> map note_createdAt (Note_handleMouseMove ds note s e prev) = map note_createdAt prev
         \<and> map note_id (handleResize rs note s e prev) = map note_id prev
         \<and> map note_createdAt (handleResize rs note s e prev) = map note_createdAt prev
         \<and> map note_id (editor_onUpdate note html prev) = map note_id prev
         \<and> map note_createdAt (editor_onUpdate note html prev) = map note_createdAt prev"
proof -
  have drag: "map note_id (Note_handleMouseMove ds note s e prev) = map note_id prev
      \<and> map note_createdAt (Note_handleMouseMove ds note s e prev) = map note_createdAt prev"
    by (simp add: Note_handleMouseMove_def Let_def handleUpdateNote_identity no_updates_def)
  have resize: "map note_id (handleResize rs note s e prev) = map note_id prev
      \<and> map note_createdAt (handleResize rs note s e prev) = map note_createdAt prev"
    by (simp add: handleResize_def Let_def handleUpdateNote_identity no_updates_def)
  have edit: "map note_id (editor_onUpdate note html prev) = map note_id prev
      \<and> map note_createdAt (editor_onUpdate note html prev) = map note_createdAt prev"
    by (simp add: editor_onUpdate_def handleUpdateNote_identity no_updates_def)
  show ?thesis
    using handleUpdateNote_identity [OF assms, of nid prev] drag resize edit by simp
qed

theorem update_keeps_identity_witness:
  "upd_id (no_updates\<lparr>upd_x := Some 5, upd_content := Some ''hi''\<rparr>) = None
   \<and> upd_createdAt (no_updates\<lparr>upd_x := Some 5, upd_content := Some ''hi''\<rparr>) = None
   \<and> handleUpdateNote ''a'' (no_updates\<lparr>upd_x := Some 5, upd_content := Some ''hi''\<rparr>)
        [\<lparr>note_id = ''a'', note_x = 0, note_y = 0, note_content = [],
          note_width = 300, note_height = 200, note_color = ''navy'',
          note_createdAt = 7\<rparr>]
      = [\<lparr>note_id = ''a'', note_x = 5, note_y = 0, note_content = ''hi'',
          note_width = 300, note_height = 200, note_color = ''navy'',
          note_createdAt = 7\<rparr>]
   \<and> map note_id (handleUpdateNote ''a''
        (no_updates\<lparr>upd_x := Some 5, upd_content := Some ''hi''\<rparr>)
        [\<lparr>note_id = ''a'', note_x = 0, note_y = 0, note_content = [],
          note_width = 300, note_height = 200, note_color = ''navy'',
          note_createdAt = 7\<rparr>]) = [''a'']
   \<and> map note_createdAt (handleUpdateNote ''a''
        (no_updates\<lparr>upd_x := Some 5, upd_content := Some ''hi''\<rparr>)
        [\<lparr>note_id = ''a'', note_x = 0, note_y = 0, note_content = [],
          note_width = 300, note_height = 200, note_color = ''navy'',
          note_createdAt = 7\<rparr>]) = [7]"
  using update_keeps_identity
    [of "no_updates\<lparr>upd_x := Some 5, upd_content := Some ''hi''\<rparr>" "''a''"
        "[\<lparr>note_id = ''a'', note_x = 0, note_y = 0, note_content = [],
          note_width = 300, note_height = 200, note_color = ''navy'',
          note_createdAt = 7\<rparr>]"]
  by (simp add: no_updates_def handleUpdateNote_def spread_def)

end
